theory Spec2Isabelle
  imports Main "HOL-Library.List_Lexorder" "HOL-Library.Char_ord"
begin

section \<open>Python values and strings\<close>

text \<open>
  Python strings are modelled as \<open>string\<close>, one \<open>char\<close> per code point below 256.
  \<open>isspace\<close> is \<open>str.isspace\<close> on that range: the characters \<open>str.strip()\<close> removes.
\<close>

definition isspace :: "char \<Rightarrow> bool" where
  "isspace c = (c \<in> set [CHR 0x09, CHR 0x0A, CHR 0x0B, CHR 0x0C, CHR 0x0D,
                           CHR 0x1C, CHR 0x1D, CHR 0x1E, CHR 0x1F, CHR 0x20,
                           CHR 0x85, CHR 0xA0])"

definition lstrip :: "string \<Rightarrow> string" where
  "lstrip s = dropWhile isspace s"

definition rstrip :: "string \<Rightarrow> string" where
  "rstrip s = rev (dropWhile isspace (rev s))"

text \<open>\<open>s.strip()\<close>: leading and trailing whitespace removed.\<close>

definition strip :: "string \<Rightarrow> string" where
  "strip s = lstrip (rstrip s)"

text \<open>
  \<open>s.split(sep)\<close> for a one-character separator: the pieces between the separators, in
  order, empty pieces kept.
\<close>

fun split_on :: "char \<Rightarrow> string \<Rightarrow> string list" where
  "split_on sep [] = [[]]"
| "split_on sep (c # cs) =
     (if c = sep then [] # split_on sep cs
      else (case split_on sep cs of [] \<Rightarrow> [[c]] | w # ws \<Rightarrow> (c # w) # ws))"

text \<open>\<open>sep.join(xs)\<close>.\<close>

fun join :: "string \<Rightarrow> string list \<Rightarrow> string" where
  "join sep [] = []"
| "join sep [x] = x"
| "join sep (x # y # ys) = x @ sep @ join sep (y # ys)"

text \<open>The comprehension \<open>[t.strip() for t in result.split(',')]\<close> of the three parsers.\<close>

definition split_strip :: "string \<Rightarrow> string list" where
  "split_strip result = map strip (split_on CHR '','' result)"

text \<open>
  The values \<open>login_user\<close> can return: \<open>x and y\<close> yields \<open>x\<close> itself when \<open>x\<close> is falsy,
  so the result is \<open>None\<close> or a \<open>bool\<close>. \<open>truthy\<close> is the test an \<open>if\<close> applies.
\<close>

datatype py_value = PyNone | PyBool bool

fun truthy :: "py_value \<Rightarrow> bool" where
  "truthy PyNone = False"
| "truthy (PyBool b) = b"

text \<open>\<open>cursor.fetchone()\<close>: the first row of the result, or \<open>None\<close>.\<close>

definition fetchone :: "'a list \<Rightarrow> 'a option" where
  "fetchone rows = (case rows of [] \<Rightarrow> None | r # _ \<Rightarrow> Some r)"

datatype sqlite_error = IntegrityError

section \<open>Credential store\<close>

text \<open>
  Table \<open>users (username TEXT PRIMARY KEY, password_hash TEXT)\<close>, rows in insertion order.
\<close>

type_synonym users_table = "(string \<times> string) list"

text \<open>
  \<open>hash_password\<close> is \<open>hashlib.sha256(password.encode()).hexdigest()\<close>; the library's digest
  is the parameter \<open>sha256\<close>.
\<close>

definition hash_password :: "(string \<Rightarrow> string) \<Rightarrow> string \<Rightarrow> string" where
  "hash_password sha256 password = sha256 password"

text \<open>\<open>INSERT INTO users\<close>: the primary key rejects a username that already has a row.\<close>

definition insert_user :: "users_table \<Rightarrow> string \<Rightarrow> string \<Rightarrow> sqlite_error + users_table" where
  "insert_user tbl username password_hash =
     (if username \<in> set (map fst tbl) then Inl IntegrityError
      else Inr (tbl @ [(username, password_hash)]))"

definition signup_user ::
  "(string \<Rightarrow> string) \<Rightarrow> users_table \<Rightarrow> string \<Rightarrow> string \<Rightarrow> bool \<times> users_table" where
  "signup_user sha256 tbl username password =
     (case insert_user tbl username (hash_password sha256 password) of
        Inr tbl' \<Rightarrow> (True, tbl')
      | Inl IntegrityError \<Rightarrow> (False, tbl))"

definition login_user ::
  "(string \<Rightarrow> string) \<Rightarrow> users_table \<Rightarrow> string \<Rightarrow> string \<Rightarrow> py_value" where
  "login_user sha256 tbl username password =
     (case fetchone (map snd (filter (\<lambda>r. fst r = username) tbl)) of
        None \<Rightarrow> PyNone
      | Some stored \<Rightarrow> PyBool (stored = hash_password sha256 password))"

text \<open>
  A stand-in digest, used only to run the model on concrete inputs; every theorem below
  holds for any digest function.
\<close>

definition sample_digest :: "string \<Rightarrow> string" where
  "sample_digest password = ''sha256:'' @ password"

section \<open>Watchlist store\<close>

text \<open>
  Table \<open>watchlist\<close> with \<open>PRIMARY KEY (username, title)\<close>, rows in insertion order.
  \<open>row_added_on\<close> is filled by the column default \<open>CURRENT_TIMESTAMP\<close>; \<open>row_summary\<close> is
  \<open>NULL\<close> (\<open>None\<close>) when the summary bound to the statement is Python's \<open>None\<close>.
\<close>

record watchlist_row =
  row_username :: string
  row_title :: string
  row_rating :: string
  row_summary :: "string option"
  row_available_on :: string
  row_added_on :: string

type_synonym watchlist_table = "watchlist_row list"

definition row_key :: "watchlist_row \<Rightarrow> string \<times> string" where
  "row_key r = (row_username r, row_title r)"

text \<open>\<open>INSERT INTO watchlist\<close>: the primary key rejects a second row for the same pair.\<close>

definition insert_watchlist ::
  "watchlist_table \<Rightarrow> watchlist_row \<Rightarrow> sqlite_error + watchlist_table" where
  "insert_watchlist tbl r =
     (if row_key r \<in> set (map row_key tbl) then Inl IntegrityError else Inr (tbl @ [r]))"

text \<open>\<open>DELETE FROM watchlist WHERE username = ? AND title = ?\<close>.\<close>

definition delete_title :: "watchlist_table \<Rightarrow> string \<Rightarrow> string \<Rightarrow> watchlist_table" where
  "delete_title tbl username title =
     filter (\<lambda>r. \<not> (row_username r = username \<and> row_title r = title)) tbl"

text \<open>\<open>DELETE FROM watchlist WHERE username = ?\<close>.\<close>

definition delete_user_rows :: "watchlist_table \<Rightarrow> string \<Rightarrow> watchlist_table" where
  "delete_user_rows tbl username = filter (\<lambda>r. row_username r \<noteq> username) tbl"

text \<open>
  \<open>SELECT ... FROM watchlist WHERE username = ?\<close>, \<open>fetchall()\<close>. The query has no
  \<open>ORDER BY\<close>; SQLite answers it from the index of the primary key, so the rows of one
  username come out ordered by title, compared code point by code point.
\<close>

definition select_watchlist :: "watchlist_table \<Rightarrow> string \<Rightarrow> watchlist_table" where
  "select_watchlist tbl username =
     sort_key row_title (filter (\<lambda>r. row_username r = username) tbl)"

definition is_in_watchlist :: "watchlist_table \<Rightarrow> string \<Rightarrow> string \<Rightarrow> bool" where
  "is_in_watchlist tbl username title =
     (fetchone (filter (\<lambda>r. row_username r = username \<and> row_title r = title) tbl) \<noteq> None)"

section \<open>External services\<close>

text \<open>
  An exception raised inside a client library (network failure, malformed response,
  rejected credential); nothing in the program catches it.
\<close>

datatype exn = Exn string

text \<open>
  An entry of a JSON object as \<open>dict.get\<close> sees it: the key is missing (the default is
  returned), or it is present with \<open>null\<close> (Python's \<open>None\<close> is returned, not the
  default), or it is present with a value.
\<close>

datatype 'a json_field = Missing | Null | Value 'a

text \<open>
  The fields of the TMDB detail response the program reads with \<open>details.get\<close>. \<open>'r\<close> is
  the type of the number \<open>vote_average\<close>. The title is a string whenever the key is present
  (\<open>None\<close> is the missing key); \<open>d_genres\<close> holds the \<open>g['name']\<close> of the genre objects.
\<close>

record 'r tmdb_details =
  d_title :: "string option"
  d_overview :: "string json_field"
  d_vote_average :: "'r json_field"
  d_poster_path :: "string json_field"
  d_genres :: "string list json_field"

record serp_result =
  snippet :: "string option"

record serp_dict =
  organic_results :: "serp_result list option"

text \<open>
  What the outside world answers during one run of the script:
  \<^item> \<open>tmdb_search_movie q\<close>: the ids \<open>movie['id']\<close> of \<open>response['results']\<close>, in order;
  \<^item> \<open>tmdb_info i\<close>: \<open>tmdb.Movies(i).info()\<close>;
  \<^item> \<open>tmdb_similar_movies i\<close>: the \<open>m['title']\<close> of \<open>similar_movies()['results']\<close>;
  \<^item> \<open>serpapi_get_dict q\<close>: \<open>GoogleSearch({"q": q, ...}).get_dict()\<close>;
  \<^item> \<open>bedrock_invoke_model prompt\<close>: \<open>result["content"][0]["text"]\<close> of the reply to the
    request whose only message is \<open>prompt\<close>;
  \<^item> \<open>current_timestamp\<close>: the store's \<open>CURRENT_TIMESTAMP\<close>.
\<close>

record 'r services =
  tmdb_search_movie :: "string \<Rightarrow> exn + nat list"
  tmdb_info :: "nat \<Rightarrow> exn + 'r tmdb_details"
  tmdb_similar_movies :: "nat \<Rightarrow> exn + string list"
  serpapi_get_dict :: "string \<Rightarrow> exn + serp_dict"
  bedrock_invoke_model :: "string \<Rightarrow> exn + string"
  current_timestamp :: string

section \<open>Language-model helpers\<close>

text \<open>
  Every function that can reach the model takes the list of prompts sent so far and
  returns it extended by the prompts it sent.
\<close>

definition ask_claude ::
  "'r services \<Rightarrow> string list \<Rightarrow> string \<Rightarrow> (exn + string) \<times> string list" where
  "ask_claude sv calls prompt =
     (case bedrock_invoke_model sv prompt of
        Inl e \<Rightarrow> (Inl e, calls @ [prompt])
      | Inr text \<Rightarrow> (Inr (strip text), calls @ [prompt]))"

text \<open>The local \<open>prompt\<close> of \<open>ask_claude_for_streaming_info\<close>.\<close>

definition streaming_info_prompt :: "string \<Rightarrow> string \<Rightarrow> string" where
  "streaming_info_prompt snippets title =
     ''Based on these web search snippets, where can I stream or watch the movie or tv show ''
     @ [CHR 0x27] @ title @ [CHR 0x27] @ ''?'' @ [CHR 0x0A, CHR 0x0A]
     @ snippets @ [CHR 0x0A, CHR 0x0A]
     @ ''List only the streaming platforms or services. If unknown, say ''
     @ [CHR 0x27] @ ''Not found'' @ [CHR 0x27] @ ''.''"

definition ask_claude_for_streaming_info ::
  "'r services \<Rightarrow> string list \<Rightarrow> string \<Rightarrow> string \<Rightarrow> (exn + string) \<times> string list" where
  "ask_claude_for_streaming_info sv calls snippets title =
     ask_claude sv calls (streaming_info_prompt snippets title)"

text \<open>The local \<open>prompt\<close> of \<open>ask_claude_for_genre_recs\<close>.\<close>

definition genre_recs_prompt :: "string \<Rightarrow> string" where
  "genre_recs_prompt genre_prompt =
     ''List 5 great movies in the genre or theme: '' @ [CHR 0x27] @ genre_prompt @ [CHR 0x27]
     @ ''. '' @ ''Return only the movie titles, comma-separated.''"

definition ask_claude_for_genre_recs ::
  "'r services \<Rightarrow> string list \<Rightarrow> string \<Rightarrow> (exn + string list) \<times> string list" where
  "ask_claude_for_genre_recs sv calls genre_prompt =
     (case ask_claude sv calls (genre_recs_prompt genre_prompt) of
        (Inl e, calls') \<Rightarrow> (Inl e, calls')
      | (Inr result, calls') \<Rightarrow> (Inr (split_strip result), calls'))"

text \<open>The local \<open>prompt\<close> of \<open>get_claude_personal_recommendations\<close>.\<close>

definition personal_recs_prompt :: "string list \<Rightarrow> string" where
  "personal_recs_prompt titles =
     ''The user has saved these movies to their watchlist: '' @ join '', '' titles @ ''. ''
     @ ''Based on their taste, recommend 5 more movies. Return only the movie titles, comma-separated.''"

definition get_claude_personal_recommendations ::
  "'r services \<Rightarrow> watchlist_table \<Rightarrow> string list \<Rightarrow> string
     \<Rightarrow> (exn + string list) \<times> string list" where
  "get_claude_personal_recommendations sv tbl calls username =
     (let titles = map row_title (select_watchlist tbl username) in
      if titles = [] then (Inr [], calls)
      else (case ask_claude sv calls (personal_recs_prompt titles) of
              (Inl e, calls') \<Rightarrow> (Inl e, calls')
            | (Inr result, calls') \<Rightarrow> (Inr (split_strip result), calls')))"

section \<open>Web search and streaming availability\<close>

definition search_snippets_from_serpapi :: "'r services \<Rightarrow> string \<Rightarrow> exn + string" where
  "search_snippets_from_serpapi sv query =
     (case serpapi_get_dict sv query of
        Inl e \<Rightarrow> Inl e
      | Inr results \<Rightarrow>
          (let snippets = List.map_filter snippet
                            (case organic_results results of None \<Rightarrow> [] | Some rs \<Rightarrow> rs);
               joined = join [CHR 0x0A] snippets
           in Inr (if joined \<noteq> [] then joined else ''No useful search results found.'')))"

definition get_streaming_info ::
  "'r services \<Rightarrow> string list \<Rightarrow> string \<Rightarrow> (exn + string list) \<times> string list" where
  "get_streaming_info sv calls title =
     (case search_snippets_from_serpapi sv (''Where can I watch '' @ title @ '' streaming'') of
        Inl e \<Rightarrow> (Inl e, calls)
      | Inr snippets \<Rightarrow>
          (case ask_claude_for_streaming_info sv calls snippets title of
             (Inl e, calls') \<Rightarrow> (Inl e, calls')
           | (Inr reply, calls') \<Rightarrow> (Inr (split_strip reply), calls')))"

section \<open>Title lookup\<close>

text \<open>
  \<open>details.get('vote_average', 'N/A')\<close> is the number, the default text, or \<open>None\<close> for a
  \<open>null\<close> entry; \<open>details.get('overview', ...)\<close> is a string or \<open>None\<close> likewise.
\<close>

datatype 'r rating = Number 'r | Text string | NoRating

record 'r info =
  title :: string
  summary :: "string option"
  rating :: "'r rating"
  poster_url :: "string option"
  genres :: "string list"
  similar_titles :: "string list"
  available_on :: "string list"

text \<open>
  The dictionary is built entry by entry, so the similar-titles request precedes the
  availability lookup; the first exception ends the call. Iterating a \<open>null\<close> genre list
  raises \<open>TypeError\<close> before either of them.
\<close>

definition get_movie_info ::
  "'r services \<Rightarrow> string list \<Rightarrow> string \<Rightarrow> (exn + 'r info option) \<times> string list" where
  "get_movie_info sv calls title_input =
     (case tmdb_search_movie sv title_input of
        Inl e \<Rightarrow> (Inl e, calls)
      | Inr [] \<Rightarrow> (Inr None, calls)
      | Inr (movie_id # _) \<Rightarrow>
          (case tmdb_info sv movie_id of
             Inl e \<Rightarrow> (Inl e, calls)
           | Inr details \<Rightarrow>
               (case d_genres details of
                  Null \<Rightarrow> (Inl (Exn ''TypeError''), calls)
                | _ \<Rightarrow>
                    (case tmdb_similar_movies sv movie_id of
                       Inl e \<Rightarrow> (Inl e, calls)
                     | Inr similar \<Rightarrow>
                         (case get_streaming_info sv calls title_input of
                            (Inl e, calls') \<Rightarrow> (Inl e, calls')
                          | (Inr platforms, calls') \<Rightarrow>
                              (Inr (Some \<lparr>
                                 title = (case d_title details of
                                            None \<Rightarrow> title_input | Some t \<Rightarrow> t),
                                 summary = (case d_overview details of
                                              Missing \<Rightarrow> Some ''No summary available.''
                                            | Null \<Rightarrow> None
                                            | Value t \<Rightarrow> Some t),
                                 rating = (case d_vote_average details of
                                             Missing \<Rightarrow> Text ''N/A''
                                           | Null \<Rightarrow> NoRating
                                           | Value v \<Rightarrow> Number v),
                                 poster_url = (case d_poster_path details of
                                                 Value p \<Rightarrow> if p \<noteq> []
                                                   then Some (''https://image.tmdb.org/t/p/w500'' @ p)
                                                   else None
                                               | _ \<Rightarrow> None),
                                 genres = (case d_genres details of Value gs \<Rightarrow> gs | _ \<Rightarrow> []),
                                 similar_titles = take 5 similar,
                                 available_on = platforms \<rparr>), calls'))))))"

section \<open>Session state and the handlers of the page\<close>

text \<open>
  \<open>st.session_state\<close>. For the three view keys \<open>None\<close> is an absent key; \<open>movie_info\<close> can
  be present with the value \<open>None\<close> (a search without a match), which is \<open>Some None\<close>.
\<close>

record 'r session =
  authenticated :: bool
  current_user :: string
  movie_info :: "'r info option option"
  claude_recs :: "string list option"
  personal_recs :: "string list option"

definition fresh_session :: "'r session" where
  "fresh_session = \<lparr> authenticated = False, current_user = [], movie_info = None,
                      claude_recs = None, personal_recs = None \<rparr>"

record 'r app =
  users :: users_table
  watchlist :: watchlist_table
  session_state :: "'r session"
  bedrock_calls :: "string list"

datatype notice = StSuccess string | StWarning string | StError string

text \<open>The \<open>Login\<close> button.\<close>

definition login_button ::
  "(string \<Rightarrow> string) \<Rightarrow> string \<Rightarrow> string \<Rightarrow> 'r app \<Rightarrow> notice \<times> 'r app" where
  "login_button sha256 username password a =
     (if truthy (login_user sha256 (users a) username password)
      then (StSuccess ''Login successful!'',
            a\<lparr>session_state := (session_state a)\<lparr>authenticated := True,
                                                  current_user := username\<rparr>\<rparr>)
      else (StError ''Invalid credentials.'', a))"

text \<open>The \<open>Sign Up\<close> button.\<close>

definition sign_up_button ::
  "(string \<Rightarrow> string) \<Rightarrow> string \<Rightarrow> string \<Rightarrow> 'r app \<Rightarrow> notice \<times> 'r app" where
  "sign_up_button sha256 username password a =
     (case signup_user sha256 (users a) username password of
        (True, tbl') \<Rightarrow> (StSuccess ''Account created! Please log in.'', a\<lparr>users := tbl'\<rparr>)
      | (False, tbl') \<Rightarrow> (StWarning ''Username already exists.'', a\<lparr>users := tbl'\<rparr>))"

text \<open>
  The \<open>Search\<close> button. An exception leaves the session as it was: the assignment and the
  two \<open>pop\<close>s come after the lookup.
\<close>

definition search_button :: "'r services \<Rightarrow> string \<Rightarrow> 'r app \<Rightarrow> 'r app" where
  "search_button sv title_input a =
     (if title_input \<noteq> [] then
        (case get_movie_info sv (bedrock_calls a) title_input of
           (Inl e, calls') \<Rightarrow> a\<lparr>bedrock_calls := calls'\<rparr>
         | (Inr found, calls') \<Rightarrow>
             a\<lparr>bedrock_calls := calls',
               session_state := (session_state a)\<lparr>movie_info := Some found,
                                                     claude_recs := None,
                                                     personal_recs := None\<rparr>\<rparr>)
      else a)"

text \<open>The \<open>Get Recs\<close> button.\<close>

definition get_recs_button :: "'r services \<Rightarrow> string \<Rightarrow> 'r app \<Rightarrow> 'r app" where
  "get_recs_button sv genre_input a =
     (if genre_input \<noteq> [] then
        (case ask_claude_for_genre_recs sv (bedrock_calls a) genre_input of
           (Inl e, calls') \<Rightarrow> a\<lparr>bedrock_calls := calls'\<rparr>
         | (Inr titles, calls') \<Rightarrow>
             a\<lparr>bedrock_calls := calls',
               session_state := (session_state a)\<lparr>claude_recs := Some titles,
                                                     movie_info := None,
                                                     personal_recs := None\<rparr>\<rparr>)
      else a)"

text \<open>
  The \<open>Add to Watchlist\<close> button, on the table: the row built from \<open>info\<close>, the insert, and
  the caught \<open>IntegrityError\<close>. \<open>str_of\<close> is \<open>str\<close> on the number \<open>vote_average\<close>;
  \<open>str(None)\<close> is the text \<open>None\<close>.
\<close>

definition str_rating :: "('r \<Rightarrow> string) \<Rightarrow> 'r rating \<Rightarrow> string" where
  "str_rating str_of x = (case x of Number v \<Rightarrow> str_of v | Text s \<Rightarrow> s | NoRating \<Rightarrow> ''None'')"

definition add_to_watchlist ::
  "('r \<Rightarrow> string) \<Rightarrow> string \<Rightarrow> watchlist_table \<Rightarrow> string \<Rightarrow> 'r info
     \<Rightarrow> notice \<times> watchlist_table" where
  "add_to_watchlist str_of now tbl user info =
     (case insert_watchlist tbl
             \<lparr> row_username = user,
               row_title = title info,
               row_rating = str_rating str_of (rating info),
               row_summary = summary info,
               row_available_on = join '', '' (available_on info),
               row_added_on = now \<rparr> of
        Inr tbl' \<Rightarrow> (StSuccess ''Added to watchlist!'', tbl')
      | Inl IntegrityError \<Rightarrow> (StWarning ''Already in your watchlist.'', tbl))"

text \<open>The button is on the page only while \<open>info\<close> is truthy.\<close>

definition add_button :: "('r \<Rightarrow> string) \<Rightarrow> 'r services \<Rightarrow> 'r app \<Rightarrow> 'r app" where
  "add_button str_of sv a =
     (case movie_info (session_state a) of
        Some (Some info) \<Rightarrow>
          a\<lparr>watchlist := snd (add_to_watchlist str_of (current_timestamp sv) (watchlist a)
                                 (current_user (session_state a)) info)\<rparr>
      | _ \<Rightarrow> a)"

text \<open>A \<open>Remove\<close> button exists for each row the sidebar lists.\<close>

definition remove_button :: "string \<Rightarrow> 'r app \<Rightarrow> 'r app" where
  "remove_button t a =
     (if t \<in> set (map row_title (select_watchlist (watchlist a) (current_user (session_state a))))
      then a\<lparr>watchlist := delete_title (watchlist a) (current_user (session_state a)) t\<rparr>
      else a)"

text \<open>The \<open>Clear Watchlist\<close> button.\<close>

definition clear_button :: "'r app \<Rightarrow> 'r app" where
  "clear_button a =
     a\<lparr>watchlist := delete_user_rows (watchlist a) (current_user (session_state a))\<rparr>"

text \<open>The \<open>Get Personalized Recs\<close> button.\<close>

definition personal_recs_button :: "'r services \<Rightarrow> 'r app \<Rightarrow> 'r app" where
  "personal_recs_button sv a =
     (case get_claude_personal_recommendations sv (watchlist a) (bedrock_calls a)
             (current_user (session_state a)) of
        (Inl e, calls') \<Rightarrow> a\<lparr>bedrock_calls := calls'\<rparr>
      | (Inr titles, calls') \<Rightarrow>
          a\<lparr>bedrock_calls := calls',
            session_state := (session_state a)\<lparr>personal_recs := Some titles,
                                                  movie_info := None,
                                                  claude_recs := None\<rparr>\<rparr>)"

text \<open>The \<open>Logout\<close> button.\<close>

definition logout_button :: "'r app \<Rightarrow> 'r app" where
  "logout_button a =
     a\<lparr>session_state := (session_state a)\<lparr>authenticated := False,
                                           current_user := [],
                                           movie_info := None,
                                           claude_recs := None,
                                           personal_recs := None\<rparr>\<rparr>"

section \<open>Widget keys in the session state\<close>

text \<open>
  The sidebar creates one button per listed row with \<open>st.button(..., key=title)\<close>.
  Streamlit registers a widget created with a key under that key in \<open>st.session_state\<close>,
  so after a run that renders the sidebar every listed title is a key of the session
  state, next to the keys the handlers assigned.
\<close>

definition sidebar_button_keys :: "'r app \<Rightarrow> string list" where
  "sidebar_button_keys a =
     map row_title (select_watchlist (watchlist a) (current_user (session_state a)))"

text \<open>The view keys the handlers have assigned and not popped.\<close>

definition assigned_view_keys :: "'r session \<Rightarrow> string list" where
  "assigned_view_keys s =
     (case movie_info s of None \<Rightarrow> [] | Some _ \<Rightarrow> [''movie_info''])
     @ (case claude_recs s of None \<Rightarrow> [] | Some _ \<Rightarrow> [''claude_recs''])
     @ (case personal_recs s of None \<Rightarrow> [] | Some _ \<Rightarrow> [''personal_recs''])"

text \<open>
  The view keys that \<open>key in st.session_state\<close> (as in lines 206 and 279) finds after a run
  that rendered the sidebar in state \<open>a\<close>.
\<close>

definition view_keys_present :: "'r app \<Rightarrow> string list" where
  "view_keys_present a =
     filter (\<lambda>k. k \<in> set (assigned_view_keys (session_state a) @ sidebar_button_keys a))
       [''movie_info'', ''claude_recs'', ''personal_recs'']"

section \<open>Histories of the store\<close>

text \<open>
  The program writes the store in four places: the \<open>INSERT\<close> of \<open>signup_user\<close>, the
  \<open>INSERT\<close> of the \<open>Add to Watchlist\<close> handler, and the two \<open>DELETE\<close>s of the sidebar.
  Every state of the store is reached by a sequence of these, whatever the page does.
\<close>

datatype 'r store_write =
    SignupWrite string string
  | AddWrite string "'r info" string
  | RemoveWrite string string
  | ClearWrite string

fun apply_write ::
  "(string \<Rightarrow> string) \<Rightarrow> ('r \<Rightarrow> string) \<Rightarrow> 'r store_write
     \<Rightarrow> users_table \<times> watchlist_table \<Rightarrow> users_table \<times> watchlist_table" where
  "apply_write sha256 str_of (SignupWrite u p) (us, wl) = (snd (signup_user sha256 us u p), wl)"
| "apply_write sha256 str_of (AddWrite u i now) (us, wl) =
     (us, snd (add_to_watchlist str_of now wl u i))"
| "apply_write sha256 str_of (RemoveWrite u t) (us, wl) = (us, delete_title wl u t)"
| "apply_write sha256 str_of (ClearWrite u) (us, wl) = (us, delete_user_rows wl u)"

fun apply_writes ::
  "(string \<Rightarrow> string) \<Rightarrow> ('r \<Rightarrow> string) \<Rightarrow> 'r store_write list
     \<Rightarrow> users_table \<times> watchlist_table \<Rightarrow> users_table \<times> watchlist_table" where
  "apply_writes sha256 str_of [] st = st"
| "apply_writes sha256 str_of (w # ws) st =
     apply_writes sha256 str_of ws (apply_write sha256 str_of w st)"

section \<open>Concrete inputs\<close>

text \<open>Values on which the definitions above are evaluated in the examples below.\<close>

definition sample_str :: "string \<Rightarrow> string" where
  "sample_str v = v"

definition sample_services :: "string services" where
  "sample_services =
     \<lparr> tmdb_search_movie = (\<lambda>q. Inr [438631, 841]),
       tmdb_info = (\<lambda>i. Inr \<lparr> d_title = Some ''Dune'', d_overview = Value ''A desert planet.'',
                                d_vote_average = Value ''7.8'', d_poster_path = Null,
                                d_genres = Value [''Science Fiction''] \<rparr>),
       tmdb_similar_movies = (\<lambda>i. Inr [''Arrival'', ''Blade Runner 2049'']),
       serpapi_get_dict = (\<lambda>q. Inr \<lparr> organic_results = None \<rparr>),
       bedrock_invoke_model = (\<lambda>p. Inr ''Not found''),
       current_timestamp = ''2024-01-01 00:00:00'' \<rparr>"

definition silent_services :: "string services" where
  "silent_services = sample_services \<lparr> bedrock_invoke_model := (\<lambda>p. Inr []) \<rparr>"

text \<open>A model that lists platforms, and a TMDB entry whose title is the name of a view key.\<close>

definition platform_services :: "string services" where
  "platform_services =
     sample_services \<lparr> bedrock_invoke_model := (\<lambda>p. Inr '' Netflix, Hulu ,Max '') \<rparr>"

definition clash_services :: "string services" where
  "clash_services =
     sample_services \<lparr> tmdb_info :=
       (\<lambda>i. Inr \<lparr> d_title = Some ''claude_recs'', d_overview = Null,
                   d_vote_average = Missing, d_poster_path = Missing,
                   d_genres = Missing \<rparr>) \<rparr>"

definition sample_row :: watchlist_row where
  "sample_row = \<lparr> row_username = ''alice'', row_title = ''Dune'', row_rating = ''7.8'',
                   row_summary = Some ''A desert planet.'', row_available_on = ''Not found'',
                   row_added_on = ''2024-01-01 00:00:00'' \<rparr>"

definition bob_row :: watchlist_row where
  "bob_row = sample_row \<lparr> row_username := ''bob'' \<rparr>"

definition sample_info :: "string info" where
  "sample_info = \<lparr> title = ''Dune'', summary = Some ''A desert planet.'', rating = Number ''7.8'',
                    poster_url = None, genres = [''Science Fiction''],
                    similar_titles = [''Arrival'', ''Blade Runner 2049''],
                    available_on = [''Not found''] \<rparr>"

definition alice_app :: "string app" where
  "alice_app = \<lparr> users = [(''alice'', sample_digest ''pw1'')],
                  watchlist = [sample_row, bob_row],
                  session_state = fresh_session \<lparr> authenticated := True, current_user := ''alice'' \<rparr>,
                  bedrock_calls = [] \<rparr>"

section \<open>Properties of the credential store\<close>

lemma login_user_absent:
  "username \<notin> set (map fst tbl) \<Longrightarrow> login_user sha256 tbl username password = PyNone"
proof -
  assume "username \<notin> set (map fst tbl)"
  then have "filter (\<lambda>r. fst r = username) tbl = []"
    by (induction tbl) auto
  then show ?thesis
    by (simp add: login_user_def fetchone_def)
qed

lemma login_user_appended:
  "username \<notin> set (map fst tbl) \<Longrightarrow>
   login_user sha256 (tbl @ [(username, h)]) username password
     = PyBool (h = hash_password sha256 password)"
proof -
  assume "username \<notin> set (map fst tbl)"
  then have "filter (\<lambda>r. fst r = username) tbl = []"
    by (induction tbl) auto
  then show ?thesis
    by (simp add: login_user_def fetchone_def)
qed

lemma signup_user_fresh:
  "username \<notin> set (map fst tbl) \<Longrightarrow>
   signup_user sha256 tbl username password
     = (True, tbl @ [(username, hash_password sha256 password)])"
  by (simp add: signup_user_def insert_user_def)

lemma signup_user_taken:
  "username \<in> set (map fst tbl) \<Longrightarrow> signup_user sha256 tbl username password = (False, tbl)"
  by (simp add: signup_user_def insert_user_def)

text \<open>
  C2. For a username with no row in the credential store, \<open>signup_user\<close> returns \<open>True\<close>;
  on the store it leaves, \<open>login_user\<close> with the same password returns \<open>True\<close>, and with
  any password whose digest differs it returns \<open>False\<close>.
\<close>

theorem signup_then_login:
  assumes "u \<notin> set (map fst tbl)"
  shows "fst (signup_user sha256 tbl u p) = True
       \<and> login_user sha256 (snd (signup_user sha256 tbl u p)) u p = PyBool True
       \<and> (sha256 w \<noteq> sha256 p \<longrightarrow>
            login_user sha256 (snd (signup_user sha256 tbl u p)) u w = PyBool False)"
  using assms
  by (auto simp: signup_user_fresh login_user_appended hash_password_def)

theorem signup_then_login_witness:
  "''alice'' \<notin> set (map fst ([] :: users_table))
   \<and> fst (signup_user sample_digest [] ''alice'' ''pw1'') = True
   \<and> login_user sample_digest (snd (signup_user sample_digest [] ''alice'' ''pw1'')) ''alice'' ''pw1''
       = PyBool True
   \<and> sample_digest ''wrong'' \<noteq> sample_digest ''pw1''
   \<and> login_user sample_digest (snd (signup_user sample_digest [] ''alice'' ''pw1'')) ''alice'' ''wrong''
       = PyBool False"
  using signup_then_login [of "''alice''" "[]" sample_digest "''pw1''" "''wrong''"]
  by (simp add: sample_digest_def)

text \<open>
  C9. Two \<open>signup_user\<close> calls with the same username, the first on a store without it:
  the first returns \<open>True\<close>, the second returns \<open>False\<close> (a value, the uniqueness violation
  being caught), whatever the two passwords are, and the second leaves the store as it was.
\<close>

theorem signup_twice:
  assumes "u \<notin> set (map fst tbl)"
  shows "fst (signup_user sha256 tbl u p1) = True
       \<and> signup_user sha256 (snd (signup_user sha256 tbl u p1)) u p2
           = (False, snd (signup_user sha256 tbl u p1))"
  using assms
  by (simp add: signup_user_fresh signup_user_taken)

theorem signup_twice_witness:
  "''alice'' \<notin> set (map fst ([] :: users_table))
   \<and> fst (signup_user sample_digest [] ''alice'' ''pw1'') = True
   \<and> signup_user sample_digest (snd (signup_user sample_digest [] ''alice'' ''pw1'')) ''alice'' ''pw2''
       = (False, snd (signup_user sample_digest [] ''alice'' ''pw1''))"
  using signup_twice [of "''alice''" "[]" sample_digest "''pw1''" "''pw2''"]
  by simp

text \<open>The primary key of \<open>users\<close> is kept by every signup.\<close>

lemma signup_user_distinct:
  "distinct (map fst tbl) \<Longrightarrow> distinct (map fst (snd (signup_user sha256 tbl u p)))"
  by (cases "u \<in> set (map fst tbl)") (simp_all add: signup_user_fresh signup_user_taken)

lemma sign_up_button_users:
  "users (snd (sign_up_button sha256 u p a)) = snd (signup_user sha256 (users a) u p)"
  by (simp add: sign_up_button_def split: prod.splits bool.splits)

lemma sign_up_button_distinct:
  "distinct (map fst (users a)) \<Longrightarrow>
   distinct (map fst (users (snd (sign_up_button sha256 u p a))))"
  by (simp add: sign_up_button_users signup_user_distinct)

lemma filter_unique_user:
  "distinct (map fst tbl) \<Longrightarrow> (u, h) \<in> set tbl \<Longrightarrow> filter (\<lambda>r. fst r = u) tbl = [(u, h)]"
proof (induction tbl)
  case Nil
  then show ?case by simp
next
  case (Cons r tbl)
  show ?case
  proof (cases "r = (u, h)")
    case True
    with Cons.prems have "u \<notin> set (map fst tbl)" by auto
    then have "filter (\<lambda>r. fst r = u) tbl = []" by (induction tbl) auto
    with True show ?thesis by simp
  next
    case False
    with Cons.prems have m: "(u, h) \<in> set tbl" by auto
    then have "u \<in> fst ` set tbl" by force
    with Cons.prems have "fst r \<noteq> u" by auto
    with Cons m show ?thesis by simp
  qed
qed

text \<open>
  C8, as the code has it. \<open>login_user\<close> returns \<open>None\<close> when the username has no row and
  \<open>False\<close> when the row's digest differs from the digest of the password. Both values are
  falsy, and the \<open>Login\<close> button, which only tests truthiness, answers both with
  \<open>Invalid credentials.\<close> and leaves the application state as it was.
\<close>

theorem login_failures_falsy:
  "(u \<notin> set (map fst (users a)) \<longrightarrow>
      login_user sha256 (users a) u p = PyNone
      \<and> \<not> truthy (login_user sha256 (users a) u p)
      \<and> login_button sha256 u p a = (StError ''Invalid credentials.'', a))
   \<and> (distinct (map fst (users a)) \<and> (v, h) \<in> set (users a) \<and> h \<noteq> hash_password sha256 q \<longrightarrow>
      login_user sha256 (users a) v q = PyBool False
      \<and> \<not> truthy (login_user sha256 (users a) v q)
      \<and> login_button sha256 v q a = (StError ''Invalid credentials.'', a))"
proof -
  have a: "u \<notin> set (map fst (users a)) \<longrightarrow>
      login_user sha256 (users a) u p = PyNone
      \<and> \<not> truthy (login_user sha256 (users a) u p)
      \<and> login_button sha256 u p a = (StError ''Invalid credentials.'', a)"
    by (simp add: login_user_absent login_button_def)
  have b: "distinct (map fst (users a)) \<and> (v, h) \<in> set (users a) \<and> h \<noteq> hash_password sha256 q \<longrightarrow>
      login_user sha256 (users a) v q = PyBool False
      \<and> \<not> truthy (login_user sha256 (users a) v q)
      \<and> login_button sha256 v q a = (StError ''Invalid credentials.'', a)"
  proof
    assume h: "distinct (map fst (users a)) \<and> (v, h) \<in> set (users a) \<and> h \<noteq> hash_password sha256 q"
    then have "filter (\<lambda>r. fst r = v) (users a) = [(v, h)]"
      by (simp add: filter_unique_user)
    with h have "login_user sha256 (users a) v q = PyBool False"
      by (simp add: login_user_def fetchone_def)
    then show "login_user sha256 (users a) v q = PyBool False
      \<and> \<not> truthy (login_user sha256 (users a) v q)
      \<and> login_button sha256 v q a = (StError ''Invalid credentials.'', a)"
      by (simp add: login_button_def)
  qed
  from a b show ?thesis by blast
qed

theorem login_failures_falsy_witness:
  "''carol'' \<notin> set (map fst (users alice_app))
   \<and> login_user sample_digest (users alice_app) ''carol'' ''pw1'' = PyNone
   \<and> distinct (map fst (users alice_app))
   \<and> (''alice'', sample_digest ''pw1'') \<in> set (users alice_app)
   \<and> sample_digest ''pw1'' \<noteq> hash_password sample_digest ''wrong''
   \<and> login_user sample_digest (users alice_app) ''alice'' ''wrong'' = PyBool False
   \<and> login_button sample_digest ''carol'' ''pw1'' alice_app
       = (StError ''Invalid credentials.'', alice_app)
   \<and> login_button sample_digest ''alice'' ''wrong'' alice_app
       = (StError ''Invalid credentials.'', alice_app)"
  using login_failures_falsy [of "''carol''" alice_app sample_digest "''pw1''" "''alice''"
          "sample_digest ''pw1''" "''wrong''"]
  by (simp add: alice_app_def sample_digest_def hash_password_def)

text \<open>
  C8, as stated, asks for the return value \<open>False\<close> in both cases and for equal return
  values. On an empty store the result is \<open>None\<close>, which differs from the \<open>False\<close> a wrong
  password gives.
\<close>

theorem login_absent_returns_None:
  "login_user sample_digest [] ''alice'' ''pw1'' = PyNone
   \<and> login_user sample_digest [(''alice'', sample_digest ''pw1'')] ''alice'' ''wrong'' = PyBool False
   \<and> login_user sample_digest [] ''alice'' ''pw1''
       \<noteq> login_user sample_digest [(''alice'', sample_digest ''pw1'')] ''alice'' ''wrong''"
  by (simp add: login_user_def fetchone_def hash_password_def sample_digest_def)

section \<open>Properties of the string helpers\<close>

lemma split_on_not_Nil: "split_on sep s \<noteq> []"
  by (induction s) (auto split: list.splits)

lemma split_strip_not_Nil: "split_strip s \<noteq> []"
  by (simp add: split_strip_def split_on_not_Nil)

lemma not_isspace_comma: "\<not> isspace CHR '',''"
  by (simp add: isspace_def)

lemma lstrip_space_Cons: "isspace w \<Longrightarrow> lstrip (w # s) = lstrip s"
  by (simp add: lstrip_def)

lemma rstrip_Cons: "rstrip (w # s) = (if rstrip s = [] \<and> isspace w then [] else w # rstrip s)"
  unfolding rstrip_def
  by (auto simp: dropWhile_append)

lemma strip_space_Cons: "isspace w \<Longrightarrow> strip (w # s) = strip s"
  by (auto simp: strip_def rstrip_Cons lstrip_def)

lemma split_on_space_Cons:
  "isspace w \<Longrightarrow> w \<noteq> sep \<Longrightarrow> map strip (split_on sep (w # s)) = map strip (split_on sep s)"
  using split_on_not_Nil [of sep s]
  by (cases "split_on sep s") (auto simp: strip_space_Cons)

lemma split_on_lstrip:
  "\<not> isspace sep \<Longrightarrow> map strip (split_on sep (lstrip s)) = map strip (split_on sep s)"
proof (induction s)
  case Nil
  then show ?case by (simp add: lstrip_def)
next
  case (Cons c s)
  show ?case
  proof (cases "isspace c")
    case True
    with Cons have "c \<noteq> sep" by auto
    with True Cons show ?thesis
      by (simp add: lstrip_space_Cons split_on_space_Cons del: split_on.simps)
  next
    case False
    then show ?thesis by (simp add: lstrip_def)
  qed
qed

lemma split_on_no_sep: "sep \<notin> set s \<Longrightarrow> split_on sep s = [s]"
  by (induction s) auto

lemma split_on_append_spaces:
  "sep \<notin> set ws \<Longrightarrow>
   split_on sep (s @ ws) = butlast (split_on sep s) @ [last (split_on sep s) @ ws]"
proof (induction s)
  case Nil
  then show ?case by (simp add: split_on_no_sep)
next
  case (Cons c s)
  then show ?case
    using split_on_not_Nil [of sep s]
    by (cases "split_on sep s") (auto split: list.splits)
qed

lemma rstrip_append_spaces:
  assumes "\<forall>c \<in> set ws. isspace c"
  shows "rstrip (s @ ws) = rstrip s"
proof -
  have "dropWhile isspace (rev ws @ rev s) = dropWhile isspace (rev s)"
    by (rule dropWhile_append2) (use assms in auto)
  then show ?thesis by (simp add: rstrip_def)
qed

lemma strip_append_spaces: "\<forall>c \<in> set ws. isspace c \<Longrightarrow> strip (s @ ws) = strip s"
  by (simp add: strip_def rstrip_append_spaces)

lemma rstrip_decompose: "rstrip s @ rev (takeWhile isspace (rev s)) = s"
proof -
  have "rstrip s @ rev (takeWhile isspace (rev s))
          = rev (takeWhile isspace (rev s) @ dropWhile isspace (rev s))"
    by (simp only: rstrip_def rev_append)
  also have "\<dots> = rev (rev s)"
    by (simp only: takeWhile_dropWhile_id)
  finally show ?thesis by simp
qed

lemma split_on_rstrip:
  assumes "\<not> isspace sep"
  shows "map strip (split_on sep (rstrip s)) = map strip (split_on sep s)"
proof -
  define ws where "ws = rev (takeWhile isspace (rev s))"
  define X where "X = split_on sep (rstrip s)"
  have sp: "\<forall>c \<in> set ws. isspace c"
    by (auto simp: ws_def dest: set_takeWhileD)
  with assms have nosep: "sep \<notin> set ws" by auto
  have X: "X \<noteq> []" by (simp add: X_def split_on_not_Nil)
  have "split_on sep s = split_on sep (rstrip s @ ws)"
    using rstrip_decompose [of s] by (simp only: ws_def)
  also have "\<dots> = butlast X @ [last X @ ws]"
    using nosep by (simp add: split_on_append_spaces X_def)
  finally have "map strip (split_on sep s) = map strip (butlast X) @ [strip (last X)]"
    using sp by (simp add: strip_append_spaces)
  also have "\<dots> = map strip (butlast X @ [last X])" by simp
  also have "\<dots> = map strip X" using X by simp
  finally show ?thesis by (simp add: X_def)
qed

lemma split_strip_strip: "split_strip (strip s) = split_strip s"
  by (simp add: split_strip_def strip_def split_on_lstrip split_on_rstrip not_isspace_comma)

text \<open>
  What splitting and stripping are, said without the two functions: the pieces contain no
  separator and joined by the separator give the string back; a stripped piece is the
  piece without a run of whitespace at either end, and has no whitespace at its ends.
\<close>

lemma join_Cons_Cons: "join sep ((c # w) # ws) = c # join sep (w # ws)"
  by (cases ws) simp_all

lemma join_split_on: "join [sep] (split_on sep s) = s"
proof (induction s)
  case Nil
  then show ?case by simp
next
  case (Cons c s)
  obtain w ws where sp: "split_on sep s = w # ws"
    using split_on_not_Nil [of sep s] by (cases "split_on sep s") auto
  show ?case
  proof (cases "c = sep")
    case True
    then show ?thesis using Cons sp by simp
  next
    case False
    then have "join [sep] (split_on sep (c # s)) = c # join [sep] (w # ws)"
      by (simp add: sp join_Cons_Cons)
    then show ?thesis using Cons sp by simp
  qed
qed

lemma split_on_pieces_no_sep: "p \<in> set (split_on sep s) \<Longrightarrow> sep \<notin> set p"
  by (induction s arbitrary: p) (auto split: if_splits list.splits)

lemma strip_inside:
  "\<exists>l r. p = l @ strip p @ r \<and> (\<forall>c \<in> set l. isspace c) \<and> (\<forall>c \<in> set r. isspace c)"
proof -
  let ?l = "takeWhile isspace (rstrip p)"
  let ?r = "rev (takeWhile isspace (rev p))"
  have "?l @ strip p = rstrip p"
    by (simp add: strip_def lstrip_def)
  then have "p = ?l @ strip p @ ?r"
    using rstrip_decompose [of p] by (metis append.assoc)
  moreover have "\<forall>c \<in> set ?l. isspace c" and "\<forall>c \<in> set ?r. isspace c"
    by (auto dest: set_takeWhileD)
  ultimately show ?thesis by blast
qed

lemma strip_ends:
  assumes "strip p \<noteq> []"
  shows "\<not> isspace (hd (strip p)) \<and> \<not> isspace (last (strip p))"
proof -
  let ?d = "dropWhile isspace (rev p)"
  have s: "strip p = dropWhile isspace (rev ?d)"
    by (simp add: strip_def lstrip_def rstrip_def)
  have d: "?d \<noteq> []"
  proof
    assume e: "?d = []"
    have "strip p = dropWhile isspace (rev [])"
      using s by (simp only: e)
    with assms show False by simp
  qed
  have h: "\<not> isspace (hd (strip p))"
    using assms unfolding s by (rule hd_dropWhile)
  have "rev ?d = takeWhile isspace (rev ?d) @ strip p"
    by (simp add: s)
  then have "last (rev ?d) = last (strip p)"
    using assms by (metis last_appendR)
  moreover have "last (rev ?d) = hd ?d"
    using d by (simp add: last_rev)
  moreover have "\<not> isspace (hd ?d)"
    using d by (rule hd_dropWhile)
  ultimately show ?thesis using h by simp
qed

lemma split_strip_pieces:
  "\<exists>pieces. join '','' pieces = s \<and> (\<forall>p \<in> set pieces. CHR '','' \<notin> set p)
     \<and> list_all2 (\<lambda>p x. (\<exists>l r. p = l @ x @ r \<and> (\<forall>c \<in> set l. isspace c)
                                \<and> (\<forall>c \<in> set r. isspace c))
                         \<and> (x \<noteq> [] \<longrightarrow> \<not> isspace (hd x) \<and> \<not> isspace (last x)))
          pieces (split_strip s)"
proof -
  let ?ps = "split_on CHR '','' s"
  have "join '','' ?ps = s" by (rule join_split_on)
  moreover have "\<forall>p \<in> set ?ps. CHR '','' \<notin> set p"
    by (simp add: split_on_pieces_no_sep)
  moreover have "list_all2 (\<lambda>p x. (\<exists>l r. p = l @ x @ r \<and> (\<forall>c \<in> set l. isspace c)
                                \<and> (\<forall>c \<in> set r. isspace c))
                         \<and> (x \<noteq> [] \<longrightarrow> \<not> isspace (hd x) \<and> \<not> isspace (last x)))
          ?ps (split_strip s)"
    unfolding split_strip_def list_all2_map2
    by (rule list_all2_refl) (use strip_inside strip_ends in blast)
  ultimately show ?thesis by blast
qed

section \<open>Properties of the watchlist store\<close>

text \<open>
  Membership in terms of keys, and the primary key of \<open>watchlist\<close>: one row per key, kept
  by every write.
\<close>

lemma is_in_watchlist_iff: "is_in_watchlist tbl u t \<longleftrightarrow> (u, t) \<in> set (map row_key tbl)"
proof -
  have "filter (\<lambda>r. row_username r = u \<and> row_title r = t) tbl \<noteq> []
          \<longleftrightarrow> (u, t) \<in> set (map row_key tbl)"
    by (induction tbl) (auto simp: row_key_def)
  then show ?thesis
    by (cases "filter (\<lambda>r. row_username r = u \<and> row_title r = t) tbl")
       (simp_all add: is_in_watchlist_def fetchone_def)
qed

lemma one_row_per_key:
  "distinct (map row_key tbl) \<Longrightarrow> (u, t) \<in> set (map row_key tbl) \<Longrightarrow>
   length (filter (\<lambda>r. row_username r = u \<and> row_title r = t) tbl) = 1"
proof (induction tbl)
  case Nil
  then show ?case by simp
next
  case (Cons r tbl)
  show ?case
  proof (cases "row_key r = (u, t)")
    case True
    with Cons.prems have "(u, t) \<notin> set (map row_key tbl)" by auto
    then have "filter (\<lambda>r. row_username r = u \<and> row_title r = t) tbl = []"
      by (induction tbl) (auto simp: row_key_def)
    with True show ?thesis by (simp add: row_key_def)
  next
    case False
    with Cons show ?thesis by (auto simp: row_key_def)
  qed
qed

lemma insert_watchlist_distinct:
  "distinct (map row_key tbl) \<Longrightarrow> insert_watchlist tbl r = Inr tbl' \<Longrightarrow> distinct (map row_key tbl')"
  by (auto simp: insert_watchlist_def split: if_splits)

lemma delete_title_distinct:
  "distinct (map row_key tbl) \<Longrightarrow> distinct (map row_key (delete_title tbl u t))"
  by (simp add: delete_title_def distinct_map_filter)

lemma delete_user_rows_distinct:
  "distinct (map row_key tbl) \<Longrightarrow> distinct (map row_key (delete_user_rows tbl u))"
  by (simp add: delete_user_rows_def distinct_map_filter)

lemma add_to_watchlist_distinct:
  "distinct (map row_key tbl) \<Longrightarrow>
   distinct (map row_key (snd (add_to_watchlist str_of now tbl u info)))"
  by (auto simp: add_to_watchlist_def insert_watchlist_def split: sum.splits sqlite_error.splits if_splits)

lemma add_button_distinct:
  "distinct (map row_key (watchlist a)) \<Longrightarrow>
   distinct (map row_key (watchlist (add_button str_of sv a)))"
  by (simp add: add_button_def add_to_watchlist_distinct split: option.splits)

lemma remove_button_distinct:
  "distinct (map row_key (watchlist a)) \<Longrightarrow>
   distinct (map row_key (watchlist (remove_button t a)))"
  by (simp add: remove_button_def delete_title_distinct)

lemma clear_button_distinct:
  "distinct (map row_key (watchlist a)) \<Longrightarrow>
   distinct (map row_key (watchlist (clear_button a)))"
  by (simp add: clear_button_def delete_user_rows_distinct)

text \<open>
  Both primary keys hold after every sequence of writes, so in every store the program
  can leave behind when it starts from a store that satisfies them, such as the empty one.
\<close>

lemma apply_write_primary_keys:
  assumes "distinct (map fst (fst st))" and "distinct (map row_key (snd st))"
  shows "distinct (map fst (fst (apply_write sha256 str_of w st)))
       \<and> distinct (map row_key (snd (apply_write sha256 str_of w st)))"
  using assms
  by (cases w; cases st)
     (simp_all add: signup_user_distinct add_to_watchlist_distinct delete_title_distinct
        delete_user_rows_distinct)

lemma apply_writes_primary_keys:
  "distinct (map fst (fst st)) \<Longrightarrow> distinct (map row_key (snd st)) \<Longrightarrow>
   distinct (map fst (fst (apply_writes sha256 str_of ws st)))
   \<and> distinct (map row_key (snd (apply_writes sha256 str_of ws st)))"
proof (induction ws arbitrary: st)
  case Nil
  then show ?case by simp
next
  case (Cons w ws)
  from apply_write_primary_keys [OF Cons.prems, of sha256 str_of w]
  show ?case by (simp add: Cons.IH)
qed

lemma store_primary_keys:
  "distinct (map fst (fst (apply_writes sha256 str_of ws ([], []))))
   \<and> distinct (map row_key (snd (apply_writes sha256 str_of ws ([], []))))"
  by (rule apply_writes_primary_keys) simp_all

text \<open>
  C1. When the store, with one row per key, already holds a row for the user and the
  title of \<open>info\<close>, the \<open>Add to Watchlist\<close> handler returns the warning (no exception
  leaves it), the table is the one it started from, and it holds exactly one row for
  that user and title.
\<close>

theorem add_duplicate_warns:
  assumes "distinct (map row_key tbl)" and "is_in_watchlist tbl u (title info)"
  shows "add_to_watchlist str_of now tbl u info = (StWarning ''Already in your watchlist.'', tbl)
       \<and> length (filter (\<lambda>r. row_username r = u \<and> row_title r = title info)
                   (snd (add_to_watchlist str_of now tbl u info))) = 1"
proof -
  have k: "(u, title info) \<in> set (map row_key tbl)"
    using assms(2) by (simp add: is_in_watchlist_iff)
  then have "add_to_watchlist str_of now tbl u info
               = (StWarning ''Already in your watchlist.'', tbl)"
    by (simp add: add_to_watchlist_def insert_watchlist_def row_key_def)
  then show ?thesis
    using one_row_per_key [OF assms(1) k] by simp
qed

theorem add_duplicate_warns_witness:
  "distinct (map row_key [sample_row, bob_row])
   \<and> is_in_watchlist [sample_row, bob_row] ''alice'' (title sample_info)
   \<and> add_to_watchlist sample_str ''2024-02-02 10:00:00'' [sample_row, bob_row] ''alice'' sample_info
       = (StWarning ''Already in your watchlist.'', [sample_row, bob_row])
   \<and> length (filter (\<lambda>r. row_username r = ''alice'' \<and> row_title r = title sample_info)
               (snd (add_to_watchlist sample_str ''2024-02-02 10:00:00'' [sample_row, bob_row]
                       ''alice'' sample_info))) = 1"
  using add_duplicate_warns [of "[sample_row, bob_row]" "''alice''" sample_info sample_str
          "''2024-02-02 10:00:00''"]
  by (simp add: sample_row_def bob_row_def sample_info_def row_key_def is_in_watchlist_def
        fetchone_def)

text \<open>
  C6. After the add, \<open>is_in_watchlist\<close> holds for the user and the title, and the add
  succeeds whenever the pair was absent; after the \<open>DELETE\<close> of a pair,
  \<open>is_in_watchlist\<close> is false for it; the \<open>DELETE\<close> of an absent pair returns the table
  unchanged.
\<close>

theorem add_exists_remove:
  "is_in_watchlist (snd (add_to_watchlist str_of now tbl u info)) u (title info)
   \<and> (\<not> is_in_watchlist tbl u (title info) \<longrightarrow>
        fst (add_to_watchlist str_of now tbl u info) = StSuccess ''Added to watchlist!'')
   \<and> \<not> is_in_watchlist (delete_title tbl u t) u t
   \<and> (\<not> is_in_watchlist tbl u t \<longrightarrow> delete_title tbl u t = tbl)"
proof -
  have a: "is_in_watchlist (snd (add_to_watchlist str_of now tbl u info)) u (title info)"
    by (auto simp: is_in_watchlist_iff add_to_watchlist_def insert_watchlist_def row_key_def)
  have b: "\<not> is_in_watchlist tbl u (title info) \<longrightarrow>
        fst (add_to_watchlist str_of now tbl u info) = StSuccess ''Added to watchlist!''"
    by (auto simp: is_in_watchlist_iff add_to_watchlist_def insert_watchlist_def row_key_def)
  have c: "\<not> is_in_watchlist (delete_title tbl u t) u t"
    by (auto simp: is_in_watchlist_iff delete_title_def row_key_def)
  have d: "\<not> is_in_watchlist tbl u t \<longrightarrow> delete_title tbl u t = tbl"
  proof
    assume "\<not> is_in_watchlist tbl u t"
    then have "\<forall>r \<in> set tbl. \<not> (row_username r = u \<and> row_title r = t)"
      by (auto simp: is_in_watchlist_iff row_key_def image_iff)
    then show "delete_title tbl u t = tbl"
      by (simp add: delete_title_def)
  qed
  from a b c d show ?thesis by blast
qed

theorem add_exists_remove_witness:
  "\<not> is_in_watchlist [bob_row] ''alice'' (title sample_info)
   \<and> fst (add_to_watchlist sample_str ''2024-01-01 00:00:00'' [bob_row] ''alice'' sample_info)
       = StSuccess ''Added to watchlist!''
   \<and> snd (add_to_watchlist sample_str ''2024-01-01 00:00:00'' [bob_row] ''alice'' sample_info)
       = [bob_row, sample_row]
   \<and> is_in_watchlist [bob_row, sample_row] ''alice'' ''Dune''
   \<and> \<not> is_in_watchlist [bob_row] ''alice'' ''Dune''
   \<and> delete_title [bob_row] ''alice'' ''Dune'' = [bob_row]"
  using add_exists_remove [of sample_str "''2024-01-01 00:00:00''" "[bob_row]" "''alice''"
          sample_info "''Dune''"]
  by (simp add: sample_row_def bob_row_def sample_info_def row_key_def is_in_watchlist_def
        fetchone_def add_to_watchlist_def insert_watchlist_def str_rating_def sample_str_def
        delete_title_def)

lemma select_after_delete_same:
  "select_watchlist (delete_user_rows tbl u) u = []"
proof -
  have "filter (\<lambda>r. row_username r = u) (filter (\<lambda>r. row_username r \<noteq> u) tbl) = []"
    by (simp add: filter_empty_conv)
  then show ?thesis
    by (simp add: delete_user_rows_def select_watchlist_def)
qed

lemma select_after_delete_other:
  "v \<noteq> u \<Longrightarrow> select_watchlist (delete_user_rows tbl u) v = select_watchlist tbl v"
proof -
  assume "v \<noteq> u"
  then have "filter (\<lambda>r. row_username r = v) (filter (\<lambda>r. row_username r \<noteq> u) tbl)
               = filter (\<lambda>r. row_username r = v) tbl"
    unfolding filter_filter by (intro filter_cong) auto
  then show ?thesis
    by (simp add: delete_user_rows_def select_watchlist_def)
qed

text \<open>
  C7. After \<open>Clear Watchlist\<close> the current user has no rows, and the rows of every other
  username are the ones that were there before, in the same order.
\<close>

theorem clear_isolated:
  "select_watchlist (watchlist (clear_button a)) (current_user (session_state a)) = []
   \<and> (v \<noteq> current_user (session_state a) \<longrightarrow>
        select_watchlist (watchlist (clear_button a)) v = select_watchlist (watchlist a) v)"
  by (simp add: clear_button_def select_after_delete_same select_after_delete_other)

theorem clear_isolated_witness:
  "''bob'' \<noteq> current_user (session_state alice_app)
   \<and> select_watchlist (watchlist (clear_button alice_app)) ''alice'' = []
   \<and> select_watchlist (watchlist (clear_button alice_app)) ''bob'' = [bob_row]"
  using clear_isolated [of alice_app "''bob''"]
  by (simp add: alice_app_def fresh_session_def select_watchlist_def bob_row_def sample_row_def)

section \<open>Properties of the recommendation pipeline\<close>

lemma ask_claude_calls: "snd (ask_claude sv calls prompt) = calls @ [prompt]"
  by (simp add: ask_claude_def split: sum.splits)

lemma ask_claude_reply:
  "bedrock_invoke_model sv prompt = Inr reply \<Longrightarrow>
   ask_claude sv calls prompt = (Inr (strip reply), calls @ [prompt])"
  by (simp add: ask_claude_def)

lemma ask_claude_cases:
  "(\<exists>e. ask_claude sv calls prompt = (Inl e, calls @ [prompt]))
   \<or> (\<exists>reply. ask_claude sv calls prompt = (Inr reply, calls @ [prompt]))"
  by (cases "bedrock_invoke_model sv prompt") (simp_all add: ask_claude_def)

lemma snippets_fallback:
  assumes "serpapi_get_dict sv q = Inr results"
    and "List.map_filter snippet (case organic_results results of None \<Rightarrow> [] | Some rs \<Rightarrow> rs) = []"
  shows "search_snippets_from_serpapi sv q = Inr ''No useful search results found.''"
  using assms by (simp add: search_snippets_from_serpapi_def)

text \<open>
  C5. For a username without watchlist rows, \<open>get_claude_personal_recommendations\<close>
  returns the empty list and sends no prompt: the list of calls is unchanged.
\<close>

theorem no_history_no_call:
  assumes "select_watchlist tbl u = []"
  shows "get_claude_personal_recommendations sv tbl calls u = (Inr [], calls)"
  using assms by (simp add: get_claude_personal_recommendations_def)

theorem no_history_no_call_witness:
  "select_watchlist [bob_row] ''alice'' = []
   \<and> get_claude_personal_recommendations sample_services [bob_row] [] ''alice'' = (Inr [], [])"
  using no_history_no_call [of "[bob_row]" "''alice''" sample_services "[]"]
  by (simp add: select_watchlist_def bob_row_def sample_row_def)

text \<open>
  C3. When the search answers and yields no snippet, \<open>get_streaming_info\<close> sends exactly one
  prompt, the one built from the fallback text \<open>No useful search results found.\<close>, which
  occurs in it. When the model replies, the result is the reply split at its commas with
  each piece trimmed: there are comma-free pieces which, joined by commas, are the reply,
  and the result holds, piece by piece, the piece without the whitespace at its two ends.
  So the reply \<open>Not found\<close> gives the one-element list \<open>[''Not found'']\<close>, and the reply
  \<open> Netflix, Hulu ,Max \<close> gives \<open>[''Netflix'', ''Hulu'', ''Max'']\<close>.
\<close>

theorem streaming_info_without_snippets:
  assumes "serpapi_get_dict sv (''Where can I watch '' @ t @ '' streaming'') = Inr results"
    and "List.map_filter snippet (case organic_results results of None \<Rightarrow> [] | Some rs \<Rightarrow> rs) = []"
  shows "snd (get_streaming_info sv calls t)
           = calls @ [streaming_info_prompt ''No useful search results found.'' t]
       \<and> (\<exists>pre post. streaming_info_prompt ''No useful search results found.'' t
                       = pre @ ''No useful search results found.'' @ post)
       \<and> (bedrock_invoke_model sv (streaming_info_prompt ''No useful search results found.'' t)
            = Inr reply \<longrightarrow>
          fst (get_streaming_info sv calls t) = Inr (map strip (split_on CHR '','' reply))
          \<and> (\<exists>pieces xs.
                fst (get_streaming_info sv calls t) = Inr xs
                \<and> join '','' pieces = reply
                \<and> (\<forall>p \<in> set pieces. CHR '','' \<notin> set p)
                \<and> list_all2 (\<lambda>p x. (\<exists>l r. p = l @ x @ r \<and> (\<forall>c \<in> set l. isspace c)
                                           \<and> (\<forall>c \<in> set r. isspace c))
                                    \<and> (x \<noteq> [] \<longrightarrow> \<not> isspace (hd x) \<and> \<not> isspace (last x)))
                     pieces xs))
       \<and> (bedrock_invoke_model sv (streaming_info_prompt ''No useful search results found.'' t)
            = Inr ''Not found'' \<longrightarrow>
          fst (get_streaming_info sv calls t) = Inr [''Not found''])
       \<and> (bedrock_invoke_model sv (streaming_info_prompt ''No useful search results found.'' t)
            = Inr '' Netflix, Hulu ,Max '' \<longrightarrow>
          fst (get_streaming_info sv calls t) = Inr [''Netflix'', ''Hulu'', ''Max''])"
proof -
  let ?p = "streaming_info_prompt ''No useful search results found.'' t"
  have s: "search_snippets_from_serpapi sv (''Where can I watch '' @ t @ '' streaming'')
             = Inr ''No useful search results found.''"
    using assms by (rule snippets_fallback)
  have g: "get_streaming_info sv calls t =
             (case ask_claude sv calls ?p of
                (Inl e, calls') \<Rightarrow> (Inl e, calls')
              | (Inr reply, calls') \<Rightarrow> (Inr (split_strip reply), calls'))"
    by (simp only: get_streaming_info_def s ask_claude_for_streaming_info_def sum.case)
  have c1: "snd (get_streaming_info sv calls t) = calls @ [?p]"
    using ask_claude_cases [of sv calls ?p] by (auto simp: g)
  have c2: "\<exists>pre post. ?p = pre @ ''No useful search results found.'' @ post"
    unfolding streaming_info_prompt_def
    by (metis append.assoc)
  have r: "fst (get_streaming_info sv calls t) = Inr (split_strip r)"
    if "bedrock_invoke_model sv ?p = Inr r" for r
  proof -
    have "fst (get_streaming_info sv calls t) = Inr (split_strip (strip r))"
      by (simp add: g ask_claude_reply [OF that])
    then show ?thesis
      by (simp add: split_strip_strip)
  qed
  have c3: "bedrock_invoke_model sv ?p = Inr reply \<longrightarrow>
          fst (get_streaming_info sv calls t) = Inr (map strip (split_on CHR '','' reply))
          \<and> (\<exists>pieces xs.
                fst (get_streaming_info sv calls t) = Inr xs
                \<and> join '','' pieces = reply
                \<and> (\<forall>p \<in> set pieces. CHR '','' \<notin> set p)
                \<and> list_all2 (\<lambda>p x. (\<exists>l r. p = l @ x @ r \<and> (\<forall>c \<in> set l. isspace c)
                                           \<and> (\<forall>c \<in> set r. isspace c))
                                    \<and> (x \<noteq> [] \<longrightarrow> \<not> isspace (hd x) \<and> \<not> isspace (last x)))
                     pieces xs)"
  proof
    assume b: "bedrock_invoke_model sv ?p = Inr reply"
    from split_strip_pieces [of reply] r [OF b]
    show "fst (get_streaming_info sv calls t) = Inr (map strip (split_on CHR '','' reply))
          \<and> (\<exists>pieces xs.
                fst (get_streaming_info sv calls t) = Inr xs
                \<and> join '','' pieces = reply
                \<and> (\<forall>p \<in> set pieces. CHR '','' \<notin> set p)
                \<and> list_all2 (\<lambda>p x. (\<exists>l r. p = l @ x @ r \<and> (\<forall>c \<in> set l. isspace c)
                                           \<and> (\<forall>c \<in> set r. isspace c))
                                    \<and> (x \<noteq> [] \<longrightarrow> \<not> isspace (hd x) \<and> \<not> isspace (last x)))
                     pieces xs)"
      by (auto simp: split_strip_def)
  qed
  have e1: "split_strip ''Not found'' = [''Not found'']"
    by (simp add: split_strip_def strip_def lstrip_def rstrip_def isspace_def)
  have e2: "split_strip '' Netflix, Hulu ,Max '' = [''Netflix'', ''Hulu'', ''Max'']"
    by (simp add: split_strip_def strip_def lstrip_def rstrip_def isspace_def)
  have c4: "bedrock_invoke_model sv ?p = Inr ''Not found'' \<longrightarrow>
          fst (get_streaming_info sv calls t) = Inr [''Not found'']"
    using r [of "''Not found''"] by (simp only: e1) blast
  have c5: "bedrock_invoke_model sv ?p = Inr '' Netflix, Hulu ,Max '' \<longrightarrow>
          fst (get_streaming_info sv calls t) = Inr [''Netflix'', ''Hulu'', ''Max'']"
    using r [of "'' Netflix, Hulu ,Max ''"] by (simp only: e2) blast
  from c1 c2 c3 c4 c5 show ?thesis by blast
qed

theorem streaming_info_without_snippets_witness:
  "serpapi_get_dict platform_services (''Where can I watch '' @ ''Dune'' @ '' streaming'')
     = Inr \<lparr> organic_results = None \<rparr>
   \<and> List.map_filter snippet
        (case organic_results \<lparr> organic_results = None \<rparr> of None \<Rightarrow> [] | Some rs \<Rightarrow> rs) = []
   \<and> bedrock_invoke_model platform_services
        (streaming_info_prompt ''No useful search results found.'' ''Dune'')
       = Inr '' Netflix, Hulu ,Max ''
   \<and> get_streaming_info platform_services [] ''Dune''
       = (Inr [''Netflix'', ''Hulu'', ''Max''],
          [streaming_info_prompt ''No useful search results found.'' ''Dune''])
   \<and> map strip (split_on CHR '','' '' Netflix, Hulu ,Max '') = [''Netflix'', ''Hulu'', ''Max'']
   \<and> bedrock_invoke_model sample_services
        (streaming_info_prompt ''No useful search results found.'' ''Dune'') = Inr ''Not found''
   \<and> get_streaming_info sample_services [] ''Dune''
       = (Inr [''Not found''], [streaming_info_prompt ''No useful search results found.'' ''Dune''])"
  using streaming_info_without_snippets [of platform_services "''Dune''"
          "\<lparr> organic_results = None \<rparr>" "[]" "'' Netflix, Hulu ,Max ''"]
        streaming_info_without_snippets [of sample_services "''Dune''"
          "\<lparr> organic_results = None \<rparr>" "[]" "''Not found''"]
  by (simp add: platform_services_def sample_services_def prod_eq_iff
        strip_def lstrip_def rstrip_def isspace_def)

text \<open>
  C10. Splitting any reply at commas gives at least one piece, so the parsed list is never
  empty: \<open>ask_claude_for_genre_recs\<close>, \<open>get_streaming_info\<close> and, on a non-empty
  watchlist, \<open>get_claude_personal_recommendations\<close> never return the empty list, and
  whenever the model replies they return the non-empty parse of the stripped reply.
\<close>

theorem parsing_never_empty:
  "split_on CHR '','' reply \<noteq> [] \<and> split_strip reply \<noteq> []
   \<and> fst (ask_claude_for_genre_recs sv calls g) \<noteq> Inr []
   \<and> fst (get_streaming_info sv calls t) \<noteq> Inr []
   \<and> (select_watchlist tbl u \<noteq> [] \<longrightarrow>
        fst (get_claude_personal_recommendations sv tbl calls u) \<noteq> Inr [])
   \<and> (bedrock_invoke_model sv (genre_recs_prompt g) = Inr reply \<longrightarrow>
        fst (ask_claude_for_genre_recs sv calls g) = Inr (split_strip (strip reply)))
   \<and> (select_watchlist tbl u \<noteq> []
        \<and> bedrock_invoke_model sv (personal_recs_prompt (map row_title (select_watchlist tbl u)))
            = Inr reply \<longrightarrow>
        fst (get_claude_personal_recommendations sv tbl calls u) = Inr (split_strip (strip reply)))
   \<and> (search_snippets_from_serpapi sv (''Where can I watch '' @ t @ '' streaming'') = Inr snippets
        \<and> bedrock_invoke_model sv (streaming_info_prompt snippets t) = Inr reply \<longrightarrow>
        fst (get_streaming_info sv calls t) = Inr (split_strip (strip reply)))"
proof -
  have a: "split_on CHR '','' reply \<noteq> [] \<and> split_strip reply \<noteq> []"
    by (simp add: split_on_not_Nil split_strip_not_Nil)
  have b: "fst (ask_claude_for_genre_recs sv calls g) \<noteq> Inr []"
    by (auto simp: ask_claude_for_genre_recs_def split_strip_not_Nil split: prod.splits sum.splits)
  have c: "fst (get_streaming_info sv calls t) \<noteq> Inr []"
    by (auto simp: get_streaming_info_def split_strip_not_Nil split: prod.splits sum.splits)
  have d: "select_watchlist tbl u \<noteq> [] \<longrightarrow>
        fst (get_claude_personal_recommendations sv tbl calls u) \<noteq> Inr []"
    by (auto simp: get_claude_personal_recommendations_def split_strip_not_Nil
             split: prod.splits sum.splits)
  have e: "bedrock_invoke_model sv (genre_recs_prompt g) = Inr reply \<longrightarrow>
        fst (ask_claude_for_genre_recs sv calls g) = Inr (split_strip (strip reply))"
    by (simp add: ask_claude_for_genre_recs_def ask_claude_reply)
  have f: "select_watchlist tbl u \<noteq> []
        \<and> bedrock_invoke_model sv (personal_recs_prompt (map row_title (select_watchlist tbl u)))
            = Inr reply \<longrightarrow>
        fst (get_claude_personal_recommendations sv tbl calls u) = Inr (split_strip (strip reply))"
    by (simp add: get_claude_personal_recommendations_def ask_claude_reply)
  have h: "search_snippets_from_serpapi sv (''Where can I watch '' @ t @ '' streaming'') = Inr snippets
        \<and> bedrock_invoke_model sv (streaming_info_prompt snippets t) = Inr reply \<longrightarrow>
        fst (get_streaming_info sv calls t) = Inr (split_strip (strip reply))"
    by (simp add: get_streaming_info_def ask_claude_for_streaming_info_def ask_claude_reply)
  from a b c d e f h show ?thesis by blast
qed

theorem parsing_never_empty_witness:
  "split_strip [] = [[]]
   \<and> select_watchlist [sample_row] ''alice'' \<noteq> []
   \<and> bedrock_invoke_model silent_services (genre_recs_prompt ''noir'') = Inr []
   \<and> bedrock_invoke_model silent_services
        (personal_recs_prompt (map row_title (select_watchlist [sample_row] ''alice''))) = Inr []
   \<and> search_snippets_from_serpapi silent_services (''Where can I watch '' @ ''Dune'' @ '' streaming'')
       = Inr ''No useful search results found.''
   \<and> bedrock_invoke_model silent_services
        (streaming_info_prompt ''No useful search results found.'' ''Dune'') = Inr []
   \<and> fst (ask_claude_for_genre_recs silent_services [] ''noir'') = Inr [[]]
   \<and> fst (get_claude_personal_recommendations silent_services [sample_row] [] ''alice'') = Inr [[]]
   \<and> fst (get_streaming_info silent_services [] ''Dune'') = Inr [[]]"
  using parsing_never_empty [of "[]" silent_services "[]" "''noir''" "''Dune''" "[sample_row]"
          "''alice''" "''No useful search results found.''"]
  by (simp add: silent_services_def sample_services_def select_watchlist_def sample_row_def
        search_snippets_from_serpapi_def
        split_strip_def strip_def lstrip_def rstrip_def)

section \<open>The view keys of the session\<close>

text \<open>
  Each of the three handlers that fills a view key either leaves the session as it was
  (empty input, or an exception before the assignment) or leaves its own key assigned and
  has popped the other two.
\<close>

lemma search_button_views:
  "session_state (search_button sv t a) = session_state a
   \<or> (\<exists>found. assigned_view_keys (session_state (search_button sv t a)) = [''movie_info'']
               \<and> movie_info (session_state (search_button sv t a)) = Some found)"
  by (auto simp: search_button_def assigned_view_keys_def split: prod.splits sum.splits)

lemma get_recs_button_views:
  "session_state (get_recs_button sv g a) = session_state a
   \<or> assigned_view_keys (session_state (get_recs_button sv g a)) = [''claude_recs'']"
  by (auto simp: get_recs_button_def assigned_view_keys_def split: prod.splits sum.splits)

lemma personal_recs_button_views:
  "session_state (personal_recs_button sv a) = session_state a
   \<or> assigned_view_keys (session_state (personal_recs_button sv a)) = [''personal_recs'']"
  by (auto simp: personal_recs_button_def assigned_view_keys_def split: prod.splits sum.splits)

lemma logout_button_views: "assigned_view_keys (session_state (logout_button a)) = []"
  by (simp add: logout_button_def assigned_view_keys_def)

text \<open>
  When no listed title is the name of a view key, the keys present are the assigned ones.
\<close>

lemma view_keys_without_clash:
  assumes "set (sidebar_button_keys a) \<inter> {''movie_info'', ''claude_recs'', ''personal_recs''} = {}"
  shows "view_keys_present a = assigned_view_keys (session_state a)"
proof -
  have "\<And>k. k \<in> {''movie_info'', ''claude_recs'', ''personal_recs''} \<Longrightarrow>
            k \<notin> set (sidebar_button_keys a)"
    using assms by blast
  then show ?thesis
    by (simp add: view_keys_present_def assigned_view_keys_def
             split: option.splits)
qed

text \<open>
  C4, at an input where the code breaks it. Alice is logged in with an empty watchlist;
  she searches a title whose TMDB entry is named \<open>claude_recs\<close> and clicks
  \<open>Add to Watchlist\<close>. The search handler assigned \<open>movie_info\<close> and popped the other two
  keys, but the sidebar of that run creates the \<open>Remove\<close> button with the key
  \<open>claude_recs\<close>: two of the three view keys are present in the session state, where the
  claim allows one.
\<close>

theorem view_key_clash:
  "view_keys_present
     (add_button sample_str clash_services
        (search_button clash_services ''recs''
           \<lparr> users = [(''alice'', sample_digest ''pw1'')], watchlist = [],
             session_state = \<lparr> authenticated = True, current_user = ''alice'',
                               movie_info = None, claude_recs = None, personal_recs = None \<rparr>,
             bedrock_calls = [] \<rparr>))
   = [''movie_info'', ''claude_recs'']"
  by (simp add: view_keys_present_def assigned_view_keys_def sidebar_button_keys_def
        select_watchlist_def add_button_def add_to_watchlist_def insert_watchlist_def
        search_button_def get_movie_info_def get_streaming_info_def
        search_snippets_from_serpapi_def ask_claude_for_streaming_info_def ask_claude_def
        clash_services_def sample_services_def)

end
